theory Spec2Isabelle
  imports Main
begin

section \<open>The ClickHouse dialector of gorm (clickhouse.go)\<close>

text \<open>
  A shallow embedding of \<^verbatim>\<open>clickhouse.go\<close>. Go strings are byte strings and are
  modelled as \<open>string\<close>; Go's \<open>int\<close> values are only compared and printed here, never
  added, so they are modelled as \<open>int\<close>. A \<open>clause.Writer\<close> is the text written to it so
  far. A Go \<open>error\<close> result is an \<open>error option\<close>, \<open>None\<close> being \<open>nil\<close>.
\<close>

subsection \<open>Writers, \<open>strings.Split\<close>, \<open>fmt.Sprintf("%d")\<close>\<close>

type_synonym writer = string

definition WriteByte :: "char \<Rightarrow> writer \<Rightarrow> writer" where
  "WriteByte c w = w @ [c]"

definition WriteString :: "string \<Rightarrow> writer \<Rightarrow> writer" where
  "WriteString s w = w @ s"

text \<open>
  \<open>strings.Split(s, sep)\<close> for a separator of one byte: the pieces of \<open>s\<close> between the
  separators, one piece more than there are separators (so \<open>Split "" "." = [""]\<close>).
\<close>

fun Split :: "string \<Rightarrow> char \<Rightarrow> string list" where
  "Split [] sep = [[]]"
| "Split (c # cs) sep =
     (if c = sep then [] # Split cs sep
      else (case Split cs sep of
              [] \<Rightarrow> [[c]]
            | seg # segs \<Rightarrow> (c # seg) # segs))"

definition Contains :: "string \<Rightarrow> char \<Rightarrow> bool" where
  "Contains s c = (c \<in> set s)"

text \<open>\<open>fmt.Sprintf("%d", i)\<close>: the decimal digits of \<open>i\<close>, after a minus sign when \<open>i < 0\<close>.\<close>

function decimal :: "nat \<Rightarrow> string" where
  "decimal n =
     (if n < 10 then [''0123456789'' ! n]
      else decimal (n div 10) @ [''0123456789'' ! (n mod 10)])"
  by pat_completeness auto
termination
  by (relation "measure id") auto

definition Sprintf_d :: "int \<Rightarrow> string" where
  "Sprintf_d i = (if i < 0 then CHR ''-'' # decimal (nat (- i)) else decimal (nat i))"

subsection \<open>Configuration\<close>

text \<open>
  The \<open>Config\<close> struct. \<open>Conn\<close> is a \<open>gorm.ConnPool\<close> interface value: \<open>None\<close> is \<open>nil\<close>,
  \<open>Some c\<close> a pool handle. Durations are nanosecond counts. A \<open>Dialector\<close> embeds a
  pointer to its \<open>Config\<close>, so a method that assigns to a field of the configuration
  returns the configuration it leaves behind.
\<close>

record Config =
  DriverName :: string
  DSN :: string
  Conn :: "nat option"
  DisableDatetimePrecision :: bool
  DontSupportRenameColumn :: bool
  SkipInitializeWithVersion :: bool
  DefaultGranularity :: int
  DefaultCompression :: string
  DefaultIndexType :: string
  DefaultTableEngineOpts :: string
  PoolMaxIdleCount :: int
  PoolMaxOpenCount :: int
  PoolMaxLifetime :: int
  PoolMaxIdleTime :: int

text \<open>The zero value of \<open>Config\<close> with a data source name, as \<open>Open(dsn)\<close> builds it.\<close>

definition Open_config :: "string \<Rightarrow> Config" where
  "Open_config dsn =
     \<lparr>DriverName = [], DSN = dsn, Conn = None, DisableDatetimePrecision = False,
      DontSupportRenameColumn = False, SkipInitializeWithVersion = False,
      DefaultGranularity = 0, DefaultCompression = [], DefaultIndexType = [],
      DefaultTableEngineOpts = [], PoolMaxIdleCount = 0, PoolMaxOpenCount = 0,
      PoolMaxLifetime = 0, PoolMaxIdleTime = 0\<rparr>"

definition Dialector_Name :: "Config \<Rightarrow> string" where
  "Dialector_Name d = ''clickhouse''"

subsection \<open>\<open>DataTypeOf\<close>\<close>

text \<open>
  gorm's \<open>schema.Field\<close>, as far as \<open>DataTypeOf\<close> reads it. \<open>schema.DataType\<close> is a string
  type; its constants are the strings below. \<open>DataTypeOf\<close> receives a pointer to the field
  and assigns to \<open>field.Precision\<close> in one branch, so the model returns the type name
  together with the field as the call leaves it.
\<close>

record schema_Field =
  DataType :: string
  Size :: int
  Precision :: int
  Scale :: int

definition schema_Bool :: string where "schema_Bool = ''bool''"
definition schema_Int :: string where "schema_Int = ''int''"
definition schema_Uint :: string where "schema_Uint = ''uint''"
definition schema_Float :: string where "schema_Float = ''float''"
definition schema_String :: string where "schema_String = ''string''"
definition schema_Time :: string where "schema_Time = ''time''"
definition schema_Bytes :: string where "schema_Bytes = ''bytes''"

definition DataTypeOf :: "Config \<Rightarrow> schema_Field \<Rightarrow> string \<times> schema_Field" where
  "DataTypeOf d field =
     (if DataType field = schema_Bool then (''UInt8'', field)
      else if DataType field = schema_Int \<or> DataType field = schema_Uint then
        (let sqlType =
               (if Size field \<le> 8 then ''Int8''
                else if Size field \<le> 16 then ''Int16''
                else if Size field \<le> 32 then ''Int32''
                else ''Int64'');
             sqlType = (if DataType field = schema_Uint then ''U'' @ sqlType else sqlType)
         in (sqlType, field))
      else if DataType field = schema_Float then
        (if Precision field > 0 then
           (''decimal('' @ Sprintf_d (Precision field) @ '', '' @ Sprintf_d (Scale field) @ '')'',
            field)
         else if Size field \<le> 32 then (''Float32'', field)
         else (''Float64'', field))
      else if DataType field = schema_String then
        (if Size field = 0 then (''String'', field)
         else (''FixedString('' @ Sprintf_d (Size field) @ '')'', field))
      else if DataType field = schema_Bytes then (''String'', field)
      else if DataType field = schema_Time then
        (if \<not> DisableDatetimePrecision d then
           (let field1 = (if Precision field = 0 then field\<lparr>Precision := 3\<rparr> else field);
                precision =
                  (if Precision field1 > 0 then ''('' @ Sprintf_d (Precision field1) @ '')''
                   else [])
            in (''DateTime64'' @ precision, field1))
         else (''DateTime64'', field))
      else (DataType field, field))"

subsection \<open>\<open>QuoteTo\<close>\<close>

text \<open>
  The loop \<open>for idx, str := range strings.Split(str, ".")\<close> of \<open>QuoteTo\<close>: \<open>idx\<close> is the
  index of the segment at the head of the list.
\<close>

fun QuoteTo_range :: "nat \<Rightarrow> string list \<Rightarrow> writer \<Rightarrow> writer" where
  "QuoteTo_range idx [] w = w"
| "QuoteTo_range idx (str # rest) w =
     QuoteTo_range (Suc idx) rest
       (WriteByte (CHR 0x60)
         (WriteString str (if idx > 0 then WriteString (''.'' @ [CHR 0x60]) w else w)))"

definition QuoteTo :: "writer \<Rightarrow> string \<Rightarrow> writer" where
  "QuoteTo w str =
     (let w1 = WriteByte (CHR 0x60) w in
      if Contains str (CHR ''.'') then QuoteTo_range 0 (Split str (CHR ''.'')) w1
      else WriteByte (CHR 0x60) (WriteString str w1))"

subsection \<open>Savepoints\<close>

text \<open>
  The errors this file returns or passes on: gorm's \<open>ErrUnsupportedDriver\<close>, and the
  errors of \<open>database/sql\<close> (opening a connection, running a query), which are opaque.
\<close>

datatype error = ErrUnsupportedDriver | DriverError string

definition SavePoint :: "Config \<Rightarrow> 'tx \<Rightarrow> string \<Rightarrow> error option" where
  "SavePoint d tx name = Some ErrUnsupportedDriver"

definition RollbackTo :: "Config \<Rightarrow> 'tx \<Rightarrow> string \<Rightarrow> error option" where
  "RollbackTo d tx name = Some ErrUnsupportedDriver"

subsection \<open>gorm's clause expressions\<close>

text \<open>
  \<open>clause.Column\<close> of gorm: the table qualifier, the column name, an alias, and the
  \<open>Raw\<close> flag.
\<close>

record Column =
  Table :: string
  Name :: string
  Alias :: string
  Raw :: bool

text \<open>
  What \<open>reflect\<close> sees in a field of a struct. The value of a field is a
  \<open>clause.Column\<close>, a string, an integer, a boolean, or a value of some other type, of
  which only the type's name and whether it is that type's zero value matter here.
\<close>

datatype reflect_value =
    ColumnValue Column
  | StringValue string
  | IntValue int
  | BoolValue bool
  | OpaqueValue string bool

text \<open>
  The layout of a struct type, as far as the lookup of a field by name reads it: the
  fields in the order of their declaration, each with its name and, for an embedded field
  whose type is a struct type \<open>T\<close> or a pointer type \<open>*T\<close>, the layout of \<open>T\<close> (the name
  of an embedded field is the name of its type). A layout is a finite tree, so the struct
  types are those whose embedded fields do not lead back to the type itself.
\<close>

datatype layout = Layout "(string \<times> layout option) list"

type_synonym addr = nat

text \<open>
  The fields of a struct value. A field declared with a concrete type holds a value; a
  field declared with an interface type (\<open>Column interface{}\<close> in \<open>clause.Eq\<close>,
  \<open>clause.IN\<close>, \<open>clause.Like\<close>, ...) holds \<open>nil\<close> or a value of any type; an embedded
  struct holds its own fields; an embedded pointer to a struct is of a type with a given
  layout and is \<open>nil\<close> or the address of a struct object in the heap. An embedded field
  of type \<open>clause.Column\<close> is a field named \<open>Column\<close> that holds a column.
\<close>

datatype field_value =
    Concrete reflect_value
  | Interface "reflect_value option"
  | Embedded "(string \<times> field_value) list"
  | EmbeddedPointer layout "addr option"

type_synonym struct_value = "(string \<times> field_value) list"

text \<open>
  A \<open>clause.Expression\<close> interface value by its dynamic type: one of the three condition
  types the type switch of \<open>modifyExprs\<close> names, whose \<open>Exprs\<close> field is a slice; a value
  of any other struct type, with the type's name and its fields; a pointer, with the name
  of its type and the address of the object it points to; a value of a named string type;
  or the \<open>nil\<close> interface. Only values of struct types have \<open>reflect.Struct\<close> as their
  kind.

  A slice \<open>[]clause.Expression\<close> shares its backing array with every copy of it, and
  \<open>modifyExprs\<close> assigns to the elements of the slice it is given. So a slice is the
  address of its array, and the heap maps each address to the list of the array's
  elements (a slice stands for its whole array; the empty list for a \<open>nil\<close> slice). The
  heap also holds the struct objects that embedded pointers point to: two struct values
  that embed the same pointer share the object.
\<close>

datatype Expression =
    AndConditions addr
  | OrConditions addr
  | NotConditions addr
  | StructExpr string struct_value
  | PointerExpr string addr
  | StringExpr string string
  | NilExpr

type_synonym objects = "addr \<Rightarrow> struct_value"

record heap =
  arrays :: "addr \<Rightarrow> Expression list"
  objects :: objects

text \<open>
  The run-time panics: a nil pointer dereference; the panic \<open>reflect: indirection through
  nil pointer to embedded struct\<close> of \<open>reflect.Value.FieldByIndex\<close>; and the other panics
  of \<open>reflect\<close> (\<open>Field\<close> with an index the struct has not, or on a value that is no
  struct; \<open>Set\<close> with a value that cannot be assigned to the field), which need a heap
  that is not well typed, with an object that has not the layout its pointer declares.

  A function that mutates the heap and may panic on the way returns, gives the panic with
  the heap as it is at the panic, or has run out of the fuel it was given.
\<close>

datatype panic = NilPointerDereference | NilEmbeddedPointer | OtherReflectPanic

datatype 'a outcome = Returns 'a | Panics panic 'a | OutOfFuel

subsection \<open>The operations of \<open>reflect\<close> that \<open>modifyExprs\<close> calls\<close>

text \<open>\<open>reflectValue.Type()\<close>: the layout of the type of a struct value.\<close>

fun field_layout :: "field_value \<Rightarrow> layout option" where
  "field_layout (Embedded flds) = Some (Layout (map (\<lambda>(n, f). (n, field_layout f)) flds))"
| "field_layout (EmbeddedPointer t a) = Some t"
| "field_layout (Concrete v) = None"
| "field_layout (Interface v) = None"

definition Value_Type :: "struct_value \<Rightarrow> layout" where
  "Value_Type v = Layout (map (\<lambda>(n, f). (n, field_layout f)) v)"

text \<open>
  \<open>Type.FieldByName\<close> gives the index sequence of the field: the index of the field in
  the struct, or the indices of the embedded fields to go through followed by the index of
  the field in the innermost struct. It first looks for the name among the fields of the
  struct itself. Then it searches the embedded structs breadth first, one depth at a time
  (\<open>FieldByNameFunc\<close>): \<open>fields_at d t\<close> lists the fields at depth \<open>d\<close> with their index
  sequences; the shallowest depth that has a field of the name decides, and gives the
  field when it has one such field and nothing when it has several.
\<close>

fun fields_at :: "nat \<Rightarrow> layout \<Rightarrow> (nat list \<times> string) list" where
  "fields_at 0 (Layout fs) = map (\<lambda>(i, n, e). ([i], n)) (enumerate 0 fs)"
| "fields_at (Suc d) (Layout fs) =
     concat (map (\<lambda>(i, n, e). case e of
                    None \<Rightarrow> []
                  | Some t \<Rightarrow> map (\<lambda>(index, m). (i # index, m)) (fields_at d t))
       (enumerate 0 fs))"

fun layout_depth :: "layout \<Rightarrow> nat" where
  "layout_depth (Layout fs) =
     fold max (map (\<lambda>(n, e). case e of None \<Rightarrow> 0 | Some t \<Rightarrow> Suc (layout_depth t)) fs) 0"

definition matches_at :: "nat \<Rightarrow> layout \<Rightarrow> string \<Rightarrow> nat list list" where
  "matches_at d t name = map fst (filter (\<lambda>(index, n). n = name) (fields_at d t))"

fun FieldByNameFunc :: "nat \<Rightarrow> nat \<Rightarrow> layout \<Rightarrow> string \<Rightarrow> nat list option" where
  "FieldByNameFunc 0 d t name = None"
| "FieldByNameFunc (Suc levels) d t name =
     (case matches_at d t name of
        [] \<Rightarrow> FieldByNameFunc levels (Suc d) t name
      | [index] \<Rightarrow> Some index
      | index # index' # others \<Rightarrow> None)"

definition Type_FieldByName :: "layout \<Rightarrow> string \<Rightarrow> nat list option" where
  "Type_FieldByName t name =
     (case matches_at 0 t name of
        index # others \<Rightarrow> Some index
      | [] \<Rightarrow> FieldByNameFunc (Suc (layout_depth t)) 0 t name)"

text \<open>
  \<open>Value.Field\<close> and \<open>Value.FieldByIndex\<close>. On an index sequence of more than one index,
  \<open>FieldByIndex\<close> goes through the embedded fields, follows an embedded pointer to its
  object, and panics on an embedded pointer that is \<open>nil\<close>.
\<close>

definition Field :: "struct_value \<Rightarrow> nat \<Rightarrow> panic + field_value" where
  "Field v i = (if i < length v then Inr (snd (v ! i)) else Inl OtherReflectPanic)"

fun FieldByIndex :: "objects \<Rightarrow> struct_value \<Rightarrow> nat list \<Rightarrow> panic + field_value" where
  "FieldByIndex objs v [] = Inr (Embedded v)"
| "FieldByIndex objs v [x] = Field v x"
| "FieldByIndex objs v (x # y # index) =
     (case Field v x of
        Inl p \<Rightarrow> Inl p
      | Inr (Embedded v') \<Rightarrow> FieldByIndex objs v' (y # index)
      | Inr (EmbeddedPointer t None) \<Rightarrow> Inl NilEmbeddedPointer
      | Inr (EmbeddedPointer t (Some a)) \<Rightarrow> FieldByIndex objs (objs a) (y # index)
      | Inr (Concrete c) \<Rightarrow> Inl OtherReflectPanic
      | Inr (Interface c) \<Rightarrow> Inl OtherReflectPanic)"

text \<open>
  \<open>Value.FieldByName\<close>: \<open>Inr None\<close> is the invalid \<open>Value\<close> that it returns when the type
  has no field of the name.
\<close>

definition FieldByName :: "objects \<Rightarrow> struct_value \<Rightarrow> string \<Rightarrow> panic + field_value option" where
  "FieldByName objs v name =
     (case Type_FieldByName (Value_Type v) name of
        None \<Rightarrow> Inr None
      | Some index \<Rightarrow>
          (case FieldByIndex objs v index of
             Inl p \<Rightarrow> Inl p
           | Inr field \<Rightarrow> Inr (Some field)))"

fun IsZero_value :: "reflect_value \<Rightarrow> bool" where
  "IsZero_value (ColumnValue c) = (Table c = [] \<and> Name c = [] \<and> Alias c = [] \<and> \<not> Raw c)"
| "IsZero_value (StringValue s) = (s = [])"
| "IsZero_value (IntValue i) = (i = 0)"
| "IsZero_value (BoolValue b) = (\<not> b)"
| "IsZero_value (OpaqueValue ty z) = z"

fun IsZero :: "field_value \<Rightarrow> bool" where
  "IsZero (Concrete v) = IsZero_value v"
| "IsZero (Interface None) = True"
| "IsZero (Interface (Some v)) = False"
| "IsZero (Embedded flds) = list_all (\<lambda>(n, f). IsZero f) flds"
| "IsZero (EmbeddedPointer t a) = (a = None)"

text \<open>The type assertion \<open>field.Interface().(clause.Column)\<close>.\<close>

fun as_Column :: "field_value \<Rightarrow> Column option" where
  "as_Column (Concrete (ColumnValue c)) = Some c"
| "as_Column (Interface (Some (ColumnValue c))) = Some c"
| "as_Column field = None"

text \<open>
  \<open>Value.Set\<close> with a column: a field of type \<open>clause.Column\<close> and a field of an interface
  type take it, a field of another type does not.
\<close>

fun Value_Set :: "field_value \<Rightarrow> Column \<Rightarrow> panic + field_value" where
  "Value_Set (Concrete (ColumnValue old)) column = Inr (Concrete (ColumnValue column))"
| "Value_Set (Interface old) column = Inr (Interface (Some (ColumnValue column)))"
| "Value_Set field column = Inl OtherReflectPanic"

text \<open>
  \<open>result.FieldByName(name).Set(reflect.ValueOf(column))\<close>, where \<open>result\<close> is a struct
  value that \<open>result.Set(reflectValue)\<close> has filled with a copy of the fields of
  \<open>reflectValue\<close>. The copy is shallow: an embedded pointer of the copy is the pointer of
  the original. \<open>FieldByName\<close> gives a reference to the field and \<open>Set\<close> writes through
  it, so the assignment lands in the copy when the index sequence stays within the struct
  value, and in the heap object when the sequence goes through an embedded pointer.
\<close>

datatype assigned = Here struct_value | There objects

fun Set_FieldByIndex :: "objects \<Rightarrow> struct_value \<Rightarrow> nat list \<Rightarrow> Column \<Rightarrow> panic + assigned" where
  "Set_FieldByIndex objs v [] column = Inl OtherReflectPanic"
| "Set_FieldByIndex objs v [x] column =
     (case Field v x of
        Inl p \<Rightarrow> Inl p
      | Inr field \<Rightarrow>
          (case Value_Set field column of
             Inl p \<Rightarrow> Inl p
           | Inr field' \<Rightarrow> Inr (Here (v[x := (fst (v ! x), field')]))))"
| "Set_FieldByIndex objs v (x # y # index) column =
     (case Field v x of
        Inl p \<Rightarrow> Inl p
      | Inr (Embedded v') \<Rightarrow>
          (case Set_FieldByIndex objs v' (y # index) column of
             Inl p \<Rightarrow> Inl p
           | Inr (Here v'') \<Rightarrow> Inr (Here (v[x := (fst (v ! x), Embedded v'')]))
           | Inr (There objs') \<Rightarrow> Inr (There objs'))
      | Inr (EmbeddedPointer t None) \<Rightarrow> Inl NilEmbeddedPointer
      | Inr (EmbeddedPointer t (Some a)) \<Rightarrow>
          (case Set_FieldByIndex objs (objs a) (y # index) column of
             Inl p \<Rightarrow> Inl p
           | Inr (Here v'') \<Rightarrow> Inr (There (objs(a := v'')))
           | Inr (There objs') \<Rightarrow> Inr (There objs'))
      | Inr (Concrete c) \<Rightarrow> Inl OtherReflectPanic
      | Inr (Interface c) \<Rightarrow> Inl OtherReflectPanic)"

definition Set_FieldByName :: "objects \<Rightarrow> struct_value \<Rightarrow> string \<Rightarrow> Column \<Rightarrow> panic + assigned" where
  "Set_FieldByName objs v name column =
     (case Type_FieldByName (Value_Type v) name of
        None \<Rightarrow> Inl OtherReflectPanic
      | Some index \<Rightarrow> Set_FieldByIndex objs v index column)"

subsection \<open>\<open>modifyExprs\<close>\<close>

text \<open>
  The \<open>default\<close> branch of the type switch, entered for the dynamic types other than the
  three condition types: a panic, or \<open>None\<close> when nothing is stored, or the value to store
  at \<open>exprs[idx]\<close> with the struct objects as the branch leaves them.
\<close>

fun modifyExprs_default :: "objects \<Rightarrow> Expression \<Rightarrow> panic + (Expression \<times> objects) option" where
  "modifyExprs_default objs (StructExpr ty reflectValue) =
     (case FieldByName objs reflectValue ''Column'' of
        Inl p \<Rightarrow> Inl p
      | Inr None \<Rightarrow> Inr None
      | Inr (Some field) \<Rightarrow>
          if IsZero field then Inr None
          else (case as_Column field of
                  None \<Rightarrow> Inr None
                | Some column \<Rightarrow>
                    (case Set_FieldByName objs reflectValue ''Column'' (column\<lparr>Table := []\<rparr>) of
                       Inl p \<Rightarrow> Inl p
                     | Inr (Here result) \<Rightarrow> Inr (Some (StructExpr ty result, objs))
                     | Inr (There objs') \<Rightarrow> Inr (Some (StructExpr ty reflectValue, objs')))))"
| "modifyExprs_default objs expr = Inr None"

text \<open>
  The loop \<open>for idx, expr := range exprs\<close>, from index \<open>idx\<close> on; \<open>n\<close> is the length of
  the slice, which \<open>range\<close> reads once. The expression trees live in the heap and Go lets a
  program build a cyclic one, on which the recursion does not end, so the function takes
  fuel: every iteration and every call costs one unit.
\<close>

fun modifyExprs_range :: "nat \<Rightarrow> addr \<Rightarrow> nat \<Rightarrow> nat \<Rightarrow> heap \<Rightarrow> heap outcome" where
  "modifyExprs_range 0 exprs idx n h = OutOfFuel"
| "modifyExprs_range (Suc fuel) exprs idx n h =
     (if idx < n then
        (case (case arrays h exprs ! idx of
                 AndConditions v \<Rightarrow> modifyExprs_range fuel v 0 (length (arrays h v)) h
               | NotConditions v \<Rightarrow> modifyExprs_range fuel v 0 (length (arrays h v)) h
               | OrConditions v \<Rightarrow> modifyExprs_range fuel v 0 (length (arrays h v)) h
               | expr \<Rightarrow>
                   (case modifyExprs_default (objects h) expr of
                      Inl p \<Rightarrow> Panics p h
                    | Inr None \<Rightarrow> Returns h
                    | Inr (Some (result, objs)) \<Rightarrow>
                        Returns (h\<lparr>arrays := (arrays h)(exprs := (arrays h exprs)[idx := result]),
                                   objects := objs\<rparr>)))
         of OutOfFuel \<Rightarrow> OutOfFuel
          | Panics p h1 \<Rightarrow> Panics p h1
          | Returns h1 \<Rightarrow> modifyExprs_range fuel exprs (Suc idx) n h1)
      else Returns h)"

definition modifyExprs :: "nat \<Rightarrow> addr \<Rightarrow> heap \<Rightarrow> heap outcome" where
  "modifyExprs fuel exprs h = modifyExprs_range fuel exprs 0 (length (arrays h exprs)) h"

subsection \<open>Statements and clause builders\<close>

text \<open>
  Of a \<open>clause.Clause\<close> the builders read the name and the expression, which is a
  \<open>clause.Where\<close> with its slice of expressions or some other clause expression. Of a
  \<open>gorm.Statement\<close> they read the map of clauses, and they write to its SQL buffer. A
  \<open>clause.Builder\<close> is a \<open>*gorm.Statement\<close> or some other builder, of which only the text
  written to it is kept.
\<close>

datatype clause_Expression = Where addr | OtherClause string

record Clause =
  Clause_Name :: string
  Clause_Expression :: clause_Expression

record Statement =
  Clauses :: "string \<Rightarrow> Clause option"
  Statement_Table :: string
  SQL :: writer

datatype Builder = StatementBuilder Statement | OtherBuilder writer

text \<open>
  The rendering that belongs to gorm and not to this file: the text that \<open>c.Build(builder)\<close>
  writes for a clause, and the text that
  \<open>builder.WriteQuoted(clause.Table{Name: clause.CurrentTable})\<close> writes. Both are
  parameters of the builders; they see the builder and the heap as they are at the call.
\<close>

record host =
  Clause_Build :: "Clause \<Rightarrow> Builder \<Rightarrow> heap \<Rightarrow> string"
  WriteQuoted_CurrentTable :: "Builder \<Rightarrow> heap \<Rightarrow> string"

definition Builder_WriteString :: "string \<Rightarrow> Builder \<Rightarrow> Builder" where
  "Builder_WriteString s builder =
     (case builder of
        StatementBuilder stmt \<Rightarrow> StatementBuilder (stmt\<lparr>SQL := WriteString s (SQL stmt)\<rparr>)
      | OtherBuilder w \<Rightarrow> OtherBuilder (WriteString s w))"

definition modifyStatementWhereConds :: "nat \<Rightarrow> Statement \<Rightarrow> heap \<Rightarrow> heap outcome" where
  "modifyStatementWhereConds fuel stmt h =
     (case Clauses stmt ''WHERE'' of
        Some c \<Rightarrow>
          (case Clause_Expression c of
             Where exprs \<Rightarrow> modifyExprs fuel exprs h
           | OtherClause x \<Rightarrow> Returns h)
      | None \<Rightarrow> Returns h)"

text \<open>
  The three builders of \<open>ClauseBuilders\<close>. The clause \<open>c\<close> looked up under \<open>"FROM"\<close> is a
  copy, so clearing its name leaves the statement's map of clauses as it was. A builder
  that panics leaves the text it has written so far.
\<close>

type_synonym ClauseBuilder =
  "host \<Rightarrow> nat \<Rightarrow> Clause \<Rightarrow> Builder \<Rightarrow> heap \<Rightarrow> (Builder \<times> heap) outcome"

definition DELETE_builder :: ClauseBuilder where
  "DELETE_builder env fuel c builder h =
     (let builder = Builder_WriteString ''ALTER TABLE '' builder in
      case (case builder of
              StatementBuilder stmt \<Rightarrow>
                (let (addedTable, builder) =
                       (case Clauses stmt ''FROM'' of
                          Some c \<Rightarrow>
                            (True,
                             Builder_WriteString
                               (Clause_Build env (c\<lparr>Clause_Name := []\<rparr>) builder h) builder)
                        | None \<Rightarrow> (False, builder))
                 in map_outcome (\<lambda>h. (addedTable, builder, h))
                      (modifyStatementWhereConds fuel stmt h))
            | OtherBuilder w \<Rightarrow> Returns (False, builder, h))
      of OutOfFuel \<Rightarrow> OutOfFuel
       | Panics p (addedTable, builder, h) \<Rightarrow> Panics p (builder, h)
       | Returns (addedTable, builder, h) \<Rightarrow>
           (let builder =
                  (if \<not> addedTable
                   then Builder_WriteString (WriteQuoted_CurrentTable env builder h) builder
                   else builder)
            in Returns (Builder_WriteString '' DELETE'' builder, h)))"

definition UPDATE_builder :: ClauseBuilder where
  "UPDATE_builder env fuel c builder h =
     (let builder = Builder_WriteString ''ALTER TABLE '' builder in
      case (case builder of
              StatementBuilder stmt \<Rightarrow>
                (let (addedTable, builder) =
                       (case Clauses stmt ''FROM'' of
                          Some c \<Rightarrow>
                            (True,
                             Builder_WriteString
                               (Clause_Build env (c\<lparr>Clause_Name := []\<rparr>) builder h) builder)
                        | None \<Rightarrow> (False, builder))
                 in map_outcome (\<lambda>h. (addedTable, builder, h))
                      (modifyStatementWhereConds fuel stmt h))
            | OtherBuilder w \<Rightarrow> Returns (False, builder, h))
      of OutOfFuel \<Rightarrow> OutOfFuel
       | Panics p (addedTable, builder, h) \<Rightarrow> Panics p (builder, h)
       | Returns (addedTable, builder, h) \<Rightarrow>
           (let builder =
                  (if \<not> addedTable
                   then Builder_WriteString (WriteQuoted_CurrentTable env builder h) builder
                   else builder)
            in Returns (Builder_WriteString '' UPDATE'' builder, h)))"

definition SET_builder :: ClauseBuilder where
  "SET_builder env fuel c builder h =
     Returns (Builder_WriteString (Clause_Build env (c\<lparr>Clause_Name := []\<rparr>) builder h) builder, h)"

definition ClauseBuilders :: "Config \<Rightarrow> string \<Rightarrow> ClauseBuilder option" where
  "ClauseBuilders d =
     Map.empty(''DELETE'' \<mapsto> DELETE_builder, ''UPDATE'' \<mapsto> UPDATE_builder, ''SET'' \<mapsto> SET_builder)"

subsection \<open>\<open>Initialize\<close>\<close>

text \<open>
  What \<open>Initialize\<close> leaves in the \<open>*gorm.DB\<close>: the connection pool (the \<open>Conn\<close> of the
  configuration, or a \<open>*sql.DB\<close> it opened, with the limits it set on it), the clause
  builders it registered, and the callbacks configuration (the delete clauses, and the
  function that replaces \<open>gorm:create\<close>).
\<close>

record sql_DB =
  DB_DriverName :: string
  DB_DSN :: string
  ConnMaxIdleTime :: "int option"
  ConnMaxLifetime :: "int option"
  MaxIdleConns :: "int option"
  MaxOpenConns :: "int option"

datatype ConnPool = GivenConn nat | OpenedDB sql_DB

record gorm_DB =
  DB_ConnPool :: "ConnPool option"
  DB_ClauseBuilders :: "string \<Rightarrow> ClauseBuilder option"
  DeleteClauses :: "string list"
  CreateCallback :: string

text \<open>
  What \<open>Initialize\<close> calls outside this repository: \<open>sql.Open\<close> (\<open>None\<close>: no error), the
  query \<open>SELECT version()\<close> with its \<open>Scan\<close> (an error or the version string), and
  hashicorp's \<open>go-version\<close>. \<open>version.NewVersion\<close> returns a \<open>nil\<close> \<open>*Version\<close> together
  with an error for a string it cannot parse (\<open>None\<close> here), and \<open>Initialize\<close> drops that
  error. \<open>Check_lt_20_4\<close> is \<open>Check\<close> of the constraint \<open>"< 20.4"\<close> on a version that is
  not \<open>nil\<close>. On \<open>nil\<close>, \<open>Check\<close> reads the fields of its argument: a nil pointer
  dereference, which panics.
\<close>

record 'v external =
  sql_Open :: "string \<Rightarrow> string \<Rightarrow> error option"
  version_query :: "ConnPool \<Rightarrow> error + string"
  NewVersion :: "string \<Rightarrow> 'v option"
  Check_lt_20_4 :: "'v \<Rightarrow> bool"

text \<open>The assignments of default values (lines 63 to 82).\<close>

definition default_settings :: "Config \<Rightarrow> Config" where
  "default_settings d =
     (let d = (if DriverName d = [] then d\<lparr>DriverName := ''clickhouse''\<rparr> else d);
          d = (if DefaultGranularity d = 0 then d\<lparr>DefaultGranularity := 3\<rparr> else d);
          d = (if DefaultCompression d = [] then d\<lparr>DefaultCompression := ''LZ4''\<rparr> else d);
          d = (if DefaultIndexType d = [] then d\<lparr>DefaultIndexType := ''minmax''\<rparr> else d);
          d = (if DefaultTableEngineOpts d = []
               then d\<lparr>DefaultTableEngineOpts := ''ENGINE=MergeTree() ORDER BY tuple()''\<rparr>
               else d)
      in d)"

text \<open>The connection pool (lines 84 to 111).\<close>

definition open_pool :: "'v external \<Rightarrow> Config \<Rightarrow> error + ConnPool" where
  "open_pool ext d =
     (case Conn d of
        Some conn \<Rightarrow> Inr (GivenConn conn)
      | None \<Rightarrow>
          (case sql_Open ext (DriverName d) (DSN d) of
             Some err \<Rightarrow> Inl err
           | None \<Rightarrow>
               (let dbb = \<lparr>DB_DriverName = DriverName d, DB_DSN = DSN d, ConnMaxIdleTime = None,
                           ConnMaxLifetime = None, MaxIdleConns = None, MaxOpenConns = None\<rparr>;
                    dbb = (if PoolMaxIdleTime d > 0
                           then dbb\<lparr>ConnMaxIdleTime := Some (PoolMaxIdleTime d)\<rparr> else dbb);
                    dbb = (if PoolMaxLifetime d > 0
                           then dbb\<lparr>ConnMaxLifetime := Some (PoolMaxLifetime d)\<rparr> else dbb);
                    dbb = (if PoolMaxIdleCount d > 0
                           then dbb\<lparr>MaxIdleConns := Some (PoolMaxIdleCount d)\<rparr> else dbb);
                    dbb = (if PoolMaxOpenCount d > 0
                           then dbb\<lparr>MaxOpenConns := Some (PoolMaxOpenCount d)\<rparr> else dbb)
                in Inr (OpenedDB dbb))))"

text \<open>
  \<open>Initialize\<close> returns its error result (\<open>None\<close> is \<open>nil\<close>) with the configuration and
  the \<open>*gorm.DB\<close> as it leaves them, or panics.
\<close>

definition Initialize ::
  "'v external \<Rightarrow> Config \<Rightarrow> gorm_DB \<Rightarrow> panic + (error option \<times> Config \<times> gorm_DB)" where
  "Initialize ext d db =
     (let db = db\<lparr>DeleteClauses := [''DELETE'', ''WHERE''], CreateCallback := ''Create''\<rparr>;
          d = default_settings d
      in case open_pool ext d of
           Inl err \<Rightarrow> Inr (Some err, d, db)
         | Inr pool \<Rightarrow>
             (let db = db\<lparr>DB_ConnPool := Some pool\<rparr> in
              case (if \<not> SkipInitializeWithVersion d then
                      (case version_query ext pool of
                         Inl err \<Rightarrow> Inr (Inl err)
                       | Inr vs \<Rightarrow>
                           (case NewVersion ext vs of
                              None \<Rightarrow> Inl NilPointerDereference
                            | Some dbversion \<Rightarrow>
                                Inr (Inr (if Check_lt_20_4 ext dbversion
                                          then d\<lparr>DontSupportRenameColumn := True\<rparr>
                                          else d))))
                    else Inr (Inr d))
              of Inl p \<Rightarrow> Inl p
               | Inr (Inl err) \<Rightarrow> Inr (Some err, d, db)
               | Inr (Inr d) \<Rightarrow>
                   Inr (None, d,
                        db\<lparr>DB_ClauseBuilders := DB_ClauseBuilders db ++ ClauseBuilders d\<rparr>)))"

section \<open>The specification's terms\<close>

subsection \<open>Quoted identifiers\<close>

text \<open>A segment wrapped in a pair of backticks, and segments joined by dots.\<close>

definition backticked :: "string \<Rightarrow> string" where
  "backticked seg = [CHR 0x60] @ seg @ [CHR 0x60]"

fun join_dots :: "string list \<Rightarrow> string" where
  "join_dots [] = []"
| "join_dots [seg] = seg"
| "join_dots (seg # segs) = seg @ ''.'' @ join_dots segs"

subsection \<open>Predicates and their columns\<close>

text \<open>
  The column a predicate carries in a heap: the value of the \<open>Column\<close> field of the
  struct, its own or promoted from an embedded struct, when \<open>reflect\<close> reaches the field
  and it is of the column type. A struct whose \<open>Column\<close> field would be promoted through
  an embedded pointer that is \<open>nil\<close> has no such value. And the text written to a builder.
\<close>

definition Column_of :: "heap \<Rightarrow> Expression \<Rightarrow> Column option" where
  "Column_of h e =
     (case e of
        StructExpr ty v \<Rightarrow>
          (case FieldByName (objects h) v ''Column'' of
             Inr (Some field) \<Rightarrow> as_Column field
           | Inr None \<Rightarrow> None
           | Inl p \<Rightarrow> None)
      | AndConditions a \<Rightarrow> None
      | OrConditions a \<Rightarrow> None
      | NotConditions a \<Rightarrow> None
      | PointerExpr ty a \<Rightarrow> None
      | StringExpr ty s \<Rightarrow> None
      | NilExpr \<Rightarrow> None)"

definition written :: "Builder \<Rightarrow> string" where
  "written builder = (case builder of StatementBuilder stmt \<Rightarrow> SQL stmt | OtherBuilder w \<Rightarrow> w)"

subsection \<open>Concrete inputs\<close>

text \<open>
  gorm's \<open>clause.Eq\<close> (fields \<open>Column interface{}\<close> and \<open>Value interface{}\<close>) for a column
  and an integer. A predicate type of a program that uses gorm, which promotes the
  \<open>Column\<close> field of a struct it embeds by pointer:
  \<open>type Meta struct { Column clause.Column }\<close> and
  \<open>type Scoped struct { *Meta; Value interface{} }\<close>.

  The heap holds the nested tree \<open>AND(OR(col1 = 1, col2 = 2), NOT(col3 = 3))\<close> of the
  specification (arrays 0 to 3), every leaf qualified by the table \<open>t\<close>; a list with one
  such leaf (array 4); a list of expressions that carry no column (array 5); the nested
  tree again with a \<open>Scoped\<close> predicate whose pointer is \<open>nil\<close> between the two leaves of
  the OR node (arrays 6 to 8, the NOT node shared with the first tree); a list that holds
  only that predicate (array 9); and the lists of two statements that hold the same
  \<open>Scoped\<close> predicate, whose pointer is the address of the \<open>Meta\<close> object 0 (arrays 10
  and 11); a list with a predicate of the type \<open>type Wrapped struct { clause.Eq }\<close>, which
  embeds \<open>clause.Eq\<close> by value (array 12); and a list that holds a pointer to the \<open>Meta\<close>
  object 0 before a \<open>Scoped\<close> predicate with the same pointer (array 13). Then a
  statement whose only clause is a WHERE clause over a slice, and a host that renders a
  clause as its name and the current table with \<open>QuoteTo\<close>.
\<close>

definition Eq_expr :: "string \<Rightarrow> string \<Rightarrow> int \<Rightarrow> Expression" where
  "Eq_expr table name v =
     StructExpr ''clause.Eq''
       [(''Column'',
         Interface (Some (ColumnValue \<lparr>Table = table, Name = name, Alias = [], Raw = False\<rparr>))),
        (''Value'', Interface (Some (IntValue v)))]"

definition fields_of :: "Expression \<Rightarrow> struct_value" where
  "fields_of e =
     (case e of
        StructExpr ty v \<Rightarrow> v
      | AndConditions a \<Rightarrow> []
      | OrConditions a \<Rightarrow> []
      | NotConditions a \<Rightarrow> []
      | PointerExpr ty a \<Rightarrow> []
      | StringExpr ty s \<Rightarrow> []
      | NilExpr \<Rightarrow> [])"

definition Meta_layout :: layout where
  "Meta_layout = Layout [(''Column'', None)]"

definition Scoped_expr :: "addr option \<Rightarrow> int \<Rightarrow> Expression" where
  "Scoped_expr meta v =
     StructExpr ''Scoped''
       [(''Meta'', EmbeddedPointer Meta_layout meta), (''Value'', Interface (Some (IntValue v)))]"

definition example_heap :: heap where
  "example_heap =
     \<lparr>arrays =
        (\<lambda>a. [])
          (0 := [AndConditions 1],
           1 := [OrConditions 2, NotConditions 3],
           2 := [Eq_expr ''t'' ''col1'' 1, Eq_expr ''t'' ''col2'' 2],
           3 := [Eq_expr ''t'' ''col3'' 3],
           4 := [Eq_expr ''t'' ''col1'' 1],
           5 := [NilExpr,
                 PointerExpr ''*clause.Expr'' 0,
                 StructExpr ''clause.Expr'' [(''SQL'', Concrete (StringValue ''t.a = 1''))],
                 StructExpr ''clause.Eq''
                   [(''Column'', Interface (Some (StringValue ''t.a''))),
                    (''Value'', Interface (Some (IntValue 1)))]],
           6 := [AndConditions 7],
           7 := [OrConditions 8, NotConditions 3],
           8 := [Eq_expr ''t'' ''col1'' 1, Scoped_expr None 4, Eq_expr ''t'' ''col2'' 2],
           9 := [Scoped_expr None 4],
           10 := [Scoped_expr (Some 0) 1],
           11 := [Scoped_expr (Some 0) 1],
           12 := [StructExpr ''Wrapped'' [(''Eq'', Embedded (fields_of (Eq_expr ''t'' ''col1'' 1)))]],
           13 := [PointerExpr ''*Meta'' 0, Scoped_expr (Some 0) 1]),
      objects =
        (\<lambda>a. [])
          (0 := [(''Column'',
                  Concrete (ColumnValue \<lparr>Table = ''t'', Name = ''col1'', Alias = [], Raw = False\<rparr>))])\<rparr>"

definition where_statement :: "addr \<Rightarrow> Statement" where
  "where_statement exprs =
     \<lparr>Clauses =
        Map.empty(''WHERE'' \<mapsto> \<lparr>Clause_Name = ''WHERE'', Clause_Expression = Where exprs\<rparr>),
      Statement_Table = ''users'', SQL = []\<rparr>"

definition plain_host :: host where
  "plain_host =
     \<lparr>Clause_Build = (\<lambda>c builder h. Clause_Name c),
      WriteQuoted_CurrentTable =
        (\<lambda>builder h. case builder of
           StatementBuilder stmt \<Rightarrow> QuoteTo [] (Statement_Table stmt)
         | OtherBuilder w \<Rightarrow> [])\<rparr>"

text \<open>
  A stand-in for \<open>go-version\<close> on plain dotted decimal version strings, for concrete
  inputs only: the segments of the version as numbers, padded with zeros to three
  segments, and the comparison with \<open>20.4\<close> segment by segment. It parses no other
  string. The server answers the version query with a given string.
\<close>

definition decimal_value :: "string \<Rightarrow> nat option" where
  "decimal_value s =
     (if s \<noteq> [] \<and> list_all (\<lambda>c. c \<in> set ''0123456789'') s
      then Some (foldl (\<lambda>n c. 10 * n + (of_char c - 48)) 0 s)
      else None)"

definition plain_NewVersion :: "string \<Rightarrow> nat list option" where
  "plain_NewVersion s =
     map_option (\<lambda>segs. segs @ replicate (3 - length segs) 0)
       (those (map decimal_value (Split s (CHR ''.''))))"

fun segments_less :: "nat list \<Rightarrow> nat list \<Rightarrow> bool" where
  "segments_less (x # xs) (y # ys) = (x < y \<or> (x = y \<and> segments_less xs ys))"
| "segments_less [] ys = list_ex (\<lambda>y. 0 < y) ys"
| "segments_less xs [] = False"

definition server :: "string \<Rightarrow> nat list external" where
  "server vs =
     \<lparr>sql_Open = (\<lambda>driver dsn. None), version_query = (\<lambda>pool. Inr vs),
      NewVersion = plain_NewVersion, Check_lt_20_4 = (\<lambda>v. segments_less v [20, 4, 0])\<rparr>"

definition new_DB :: gorm_DB where
  "new_DB =
     \<lparr>DB_ConnPool = None, DB_ClauseBuilders = Map.empty, DeleteClauses = [],
      CreateCallback = []\<rparr>"

section \<open>Properties\<close>

subsection \<open>Splitting and joining\<close>

lemma Split_not_Nil: "Split s sep \<noteq> []"
  by (induction s) (auto split: list.splits)

lemma Split_no_sep: "sep \<notin> set s \<Longrightarrow> Split s sep = [s]"
  by (induction s) auto

lemma Split_segments_free: "seg \<in> set (Split s sep) \<Longrightarrow> sep \<notin> set seg"
  by (induction s arbitrary: seg) (auto split: if_splits list.splits)

lemma length_Split: "length (Split s sep) = Suc (count_list s sep)"
  by (induction s) (auto split: list.splits)

lemma join_dots_Cons: "segs \<noteq> [] \<Longrightarrow> join_dots (seg # segs) = seg @ ''.'' @ join_dots segs"
  by (cases segs) auto

lemma join_dots_Split: "join_dots (Split s (CHR ''.'')) = s"
proof (induction s)
  case Nil
  show ?case by simp
next
  case (Cons c cs)
  show ?case
  proof (cases "c = CHR ''.''")
    case True
    with Cons show ?thesis
      by (simp add: join_dots_Cons Split_not_Nil)
  next
    case False
    obtain seg segs where s: "Split cs (CHR ''.'') = seg # segs"
      by (cases "Split cs (CHR ''.'')") (auto simp: Split_not_Nil)
    with Cons False show ?thesis
      by (cases segs) auto
  qed
qed

lemma QuoteTo_range_Suc:
  "QuoteTo_range (Suc idx) segs w = w @ concat (map (\<lambda>seg. ''.'' @ backticked seg) segs)"
  by (induction segs arbitrary: idx w) (auto simp: WriteByte_def WriteString_def backticked_def)

lemma join_dots_backticked:
  "join_dots (map backticked (seg # segs)) =
     backticked seg @ concat (map (\<lambda>seg. ''.'' @ backticked seg) segs)"
  by (induction segs arbitrary: seg) (auto simp: join_dots_Cons)

lemma QuoteTo_join:
  "QuoteTo w str = w @ join_dots (map backticked (Split str (CHR ''.'')))"
proof (cases "CHR ''.'' \<in> set str")
  case True
  obtain seg segs where s: "Split str (CHR ''.'') = seg # segs"
    by (cases "Split str (CHR ''.'')") (auto simp: Split_not_Nil)
  have "QuoteTo w str = QuoteTo_range 0 (seg # segs) (w @ [CHR 0x60])"
    using True s by (simp add: QuoteTo_def Contains_def WriteByte_def)
  also have "\<dots> = w @ backticked seg @ concat (map (\<lambda>seg. ''.'' @ backticked seg) segs)"
    by (simp add: QuoteTo_range_Suc WriteByte_def WriteString_def backticked_def)
  finally show ?thesis
    using s by (simp only: join_dots_backticked)
next
  case False
  then show ?thesis
    by (simp add: QuoteTo_def Contains_def Split_no_sep WriteByte_def WriteString_def
        backticked_def)
qed








subsection \<open>Fields reached through an embedded pointer\<close>

lemma Field_nth: "x < length v \<Longrightarrow> Field v x = Inr (snd (v ! x))"
  by (simp add: Field_def)

lemma FieldByIndex_nil_pointer:
  assumes "x < length v" and "snd (v ! x) = EmbeddedPointer t None"
  shows "FieldByIndex objs v (x # y # index) = Inl NilEmbeddedPointer"
  using assms by (simp add: Field_nth)

lemma modifyExprs_default_nil_pointer:
  assumes "Type_FieldByName (Value_Type v) ''Column'' = Some (x # y # index)"
    and "x < length v" and "snd (v ! x) = EmbeddedPointer t None"
  shows "modifyExprs_default objs (StructExpr ty v) = Inl NilEmbeddedPointer"
  using assms by (simp add: FieldByName_def Field_nth)

lemma modifyExprs_nil_pointer:
  assumes "arrays h exprs = StructExpr ty v # rest"
    and "Type_FieldByName (Value_Type v) ''Column'' = Some (x # y # index)"
    and "x < length v" and "snd (v ! x) = EmbeddedPointer t None"
  shows "modifyExprs (Suc fuel) exprs h = Panics NilEmbeddedPointer h"
  using assms(1) modifyExprs_default_nil_pointer [OF assms(2-4)]
  by (simp add: modifyExprs_def)

lemma FieldByIndex_pointer:
  assumes "x < length v" and "snd (v ! x) = EmbeddedPointer t (Some a)"
  shows "FieldByIndex objs v [x, y] = Field (objs a) y"
  using assms by (simp add: Field_nth)

lemma Set_FieldByIndex_pointer:
  assumes "x < length v" and "snd (v ! x) = EmbeddedPointer t (Some a)"
    and "y < length (objs a)" and "snd (objs a ! y) = Concrete (ColumnValue c)"
  shows "Set_FieldByIndex objs v [x, y] column =
           Inr (There (objs(a := (objs a)[y := (fst (objs a ! y), Concrete (ColumnValue column))])))"
  using assms by (simp add: Field_nth)

lemma modifyExprs_default_pointer:
  assumes "Type_FieldByName (Value_Type v) ''Column'' = Some [x, y]"
    and "x < length v" and "snd (v ! x) = EmbeddedPointer t (Some a)"
    and "y < length (objs a)" and "snd (objs a ! y) = Concrete (ColumnValue c)"
    and "Table c \<noteq> []"
  shows "modifyExprs_default objs (StructExpr ty v) =
           Inr (Some (StructExpr ty v,
             objs(a := (objs a)[y := (fst (objs a ! y), Concrete (ColumnValue (c\<lparr>Table := []\<rparr>)))])))"
  using assms
  by (simp add: FieldByName_def Set_FieldByName_def FieldByIndex_pointer Set_FieldByIndex_pointer
      Field_nth)

lemma Column_of_pointer:
  assumes "Type_FieldByName (Value_Type v) ''Column'' = Some [x, y]"
    and "x < length v" and "snd (v ! x) = EmbeddedPointer t (Some a)"
    and "y < length (objects h a)" and "snd (objects h a ! y) = Concrete (ColumnValue c)"
  shows "Column_of h (StructExpr ty v) = Some c"
  using assms by (simp add: Column_of_def FieldByName_def FieldByIndex_pointer Field_nth)

subsection \<open>A \<open>Column\<close> field of the struct itself\<close>

text \<open>
  When the \<open>Column\<close> field is a field of the struct itself, as in gorm's own predicate
  types, the \<open>default\<close> branch does not panic and leaves the struct objects as they are:
  it stores nothing, or a new struct value.
\<close>

lemma Value_Set_column:
  assumes "as_Column field = Some column"
  shows "\<exists>field'. Value_Set field column' = Inr field' \<and> as_Column field' = Some column'"
proof (cases field)
  case (Concrete c)
  with assms show ?thesis by (cases c) simp_all
next
  case (Interface c)
  then show ?thesis by simp
next
  case (Embedded flds)
  with assms show ?thesis by simp
next
  case (EmbeddedPointer t a)
  with assms show ?thesis by simp
qed

lemma modifyExprs_default_own_field:
  assumes "Type_FieldByName (Value_Type v) ''Column'' = Some [x]" and "x < length v"
  shows "modifyExprs_default objs (StructExpr ty v) = Inr None
         \<or> (\<exists>column field'.
               as_Column (snd (v ! x)) = Some column
               \<and> as_Column field' = Some (column\<lparr>Table := []\<rparr>)
               \<and> modifyExprs_default objs (StructExpr ty v) =
                   Inr (Some (StructExpr ty (v[x := (fst (v ! x), field')]), objs)))"
proof (cases "as_Column (snd (v ! x))")
  case None
  with assms show ?thesis
    by (simp add: FieldByName_def Field_nth)
next
  case (Some column)
  obtain field' where "Value_Set (snd (v ! x)) (column\<lparr>Table := []\<rparr>) = Inr field'"
    and "as_Column field' = Some (column\<lparr>Table := []\<rparr>)"
    using Value_Set_column [OF Some] by blast
  with assms Some show ?thesis
    by (auto simp: FieldByName_def Set_FieldByName_def Field_nth)
qed

subsection \<open>Initialization\<close>

lemma default_settings_flags [simp]:
  "SkipInitializeWithVersion (default_settings d) = SkipInitializeWithVersion d"
  "DontSupportRenameColumn (default_settings d) = DontSupportRenameColumn d"
  by (simp_all add: default_settings_def Let_def)

subsection \<open>The concrete inputs\<close>

lemma plain_20_3_1: "plain_NewVersion ''20.3.1'' = Some [20, 3, 1]"
  by code_simp

lemma plain_20_5_0: "plain_NewVersion ''20.5.0'' = Some [20, 5, 0]"
  by code_simp

lemma plain_empty: "plain_NewVersion [] = None"
  by code_simp

lemma Scoped_Column_index:
  "Type_FieldByName
     (Value_Type [(''Meta'', EmbeddedPointer Meta_layout meta), (''Value'', Interface value)])
     ''Column'' = Some [0, 0]"
  by (simp add: Type_FieldByName_def Value_Type_def Meta_layout_def matches_at_def)

text \<open>
  On the nested tree of the specification, on the list of expressions that carry no
  column, and on a statement with one qualified column and no FROM clause, the code does
  what the specification says.
\<close>

lemma example_run_0:
  "map_outcome (\<lambda>h'. map (arrays h') [0, 1, 2, 3]) (modifyExprs 8 0 example_heap) =
     Returns [[AndConditions 1], [OrConditions 2, NotConditions 3],
              [Eq_expr [] ''col1'' 1, Eq_expr [] ''col2'' 2], [Eq_expr [] ''col3'' 3]]"
  by code_simp

lemma example_run_5:
  "map_outcome (\<lambda>h'. arrays h' 5) (modifyExprs 5 5 example_heap) =
     Returns (arrays example_heap 5)"
  by code_simp

lemma example_DELETE_4:
  "map_outcome (\<lambda>(builder, h'). (written builder, arrays h' 4))
     (DELETE_builder plain_host 2
        \<lparr>Clause_Name = ''DELETE'', Clause_Expression = OtherClause ''clause.Delete''\<rparr>
        (StatementBuilder (where_statement 4)) example_heap) =
     Returns (''ALTER TABLE `users` DELETE'', [Eq_expr [] ''col1'' 1])"
  by code_simp

text \<open>
  A struct that embeds \<open>clause.Eq\<close> by value has the \<open>Column\<close> field of \<open>clause.Eq\<close>
  promoted, and is rewritten. A pointer in a list is passed over, and the object it points
  to is rewritten when a predicate later in the list embeds the same pointer.
\<close>

lemma example_run_12:
  "map_outcome (\<lambda>h'. arrays h' 12) (modifyExprs 2 12 example_heap) =
     Returns [StructExpr ''Wrapped'' [(''Eq'', Embedded (fields_of (Eq_expr [] ''col1'' 1)))]]"
  by code_simp

lemma example_run_13:
  "map_outcome (\<lambda>h'. (arrays h' 13, objects h' 0)) (modifyExprs 3 13 example_heap) =
     Returns ([PointerExpr ''*Meta'' 0, Scoped_expr (Some 0) 1],
              [(''Column'',
                Concrete (ColumnValue \<lparr>Table = [], Name = ''col1'', Alias = [], Raw = False\<rparr>))])"
  by code_simp

subsection \<open>Claims\<close>

text \<open>
  C1: where the code departs from the claim. On the WHERE tree
  \<open>AND(OR(t.col1 = 1, p, t.col2 = 2), NOT(t.col3 = 3))\<close>, whose leaf \<open>p\<close> is a struct with
  a \<open>Column\<close> field promoted from an embedded pointer that is \<open>nil\<close>,
  \<open>modifyStatementWhereConds\<close> does not return: the lookup of the field panics at \<open>p\<close>.
  The leaf before \<open>p\<close> has lost its table qualifier; the leaves after \<open>p\<close>, in the OR
  node and in the NOT node, keep the qualifier \<open>t\<close>. It is the same on the flat list
  \<open>t.col1 = 1, p, t.col2 = 2\<close>.
\<close>

theorem modifyExprs_abandons_tree:
  "map_outcome (\<lambda>h'. map (arrays h') [6, 7, 8, 3])
     (modifyStatementWhereConds (Suc (Suc (Suc (Suc fuel)))) (where_statement 6) example_heap) =
   Panics NilEmbeddedPointer
     [[AndConditions 7], [OrConditions 8, NotConditions 3],
      [Eq_expr [] ''col1'' 1, Scoped_expr None 4, Eq_expr ''t'' ''col2'' 2],
      [Eq_expr ''t'' ''col3'' 3]]
   \<and> map_outcome (\<lambda>h'. arrays h' 8) (modifyExprs (Suc (Suc fuel)) 8 example_heap) =
       Panics NilEmbeddedPointer
         [Eq_expr [] ''col1'' 1, Scoped_expr None 4, Eq_expr ''t'' ''col2'' 2]"
  by (simp add: modifyStatementWhereConds_def where_statement_def modifyExprs_def
      example_heap_def Eq_expr_def Scoped_expr_def FieldByName_def Set_FieldByName_def
      Type_FieldByName_def Value_Type_def Meta_layout_def matches_at_def Field_def)

text \<open>
  C2: where the code departs from the claim. The copy that \<open>modifyExprs\<close> makes of a
  predicate is shallow. When the \<open>Column\<close> field of the predicate is promoted from a
  struct that it embeds by a pointer, and the pointer is not \<open>nil\<close>, the copy holds the
  same pointer, and the assignment to the \<open>Column\<close> field of the copy writes into the
  object the pointer points to, which the original predicate shares. So after
  \<open>modifyExprs\<close> on the list of one statement, the same predicate in the list of a second
  statement, a list that is itself left as it was, has lost its table qualifier.
\<close>

theorem modifyExprs_mutates_shared_predicate:
  assumes "arrays h exprs1 = [StructExpr ty v]"
    and "j < length (arrays h exprs2)" and "arrays h exprs2 ! j = StructExpr ty v"
    and "Type_FieldByName (Value_Type v) ''Column'' = Some [x, y]"
    and "x < length v" and "snd (v ! x) = EmbeddedPointer t (Some a)"
    and "y < length (objects h a)" and "snd (objects h a ! y) = Concrete (ColumnValue c)"
    and "Table c \<noteq> []"
  shows "\<exists>h'. modifyExprs (Suc (Suc fuel)) exprs1 h = Returns h'
           \<and> arrays h' = arrays h
           \<and> arrays h' exprs2 ! j = StructExpr ty v
           \<and> Column_of h (arrays h exprs2 ! j) = Some c
           \<and> Column_of h' (arrays h' exprs2 ! j) = Some (c\<lparr>Table := []\<rparr>)"
proof -
  let ?objs = "(objects h)(a := (objects h a)
                 [y := (fst (objects h a ! y), Concrete (ColumnValue (c\<lparr>Table := []\<rparr>)))])"
  let ?h' = "h\<lparr>objects := ?objs\<rparr>"
  have d: "modifyExprs_default (objects h) (StructExpr ty v) = Inr (Some (StructExpr ty v, ?objs))"
    using assms(4-9) by (rule modifyExprs_default_pointer)
  have "(arrays h)(exprs1 := [StructExpr ty v]) = arrays h"
    using assms(1) by auto
  then have "modifyExprs (Suc (Suc fuel)) exprs1 h = Returns ?h'"
    using assms(1) d by (simp add: modifyExprs_def)
  moreover have "Column_of h (StructExpr ty v) = Some c"
    using assms(4-8) by (rule Column_of_pointer)
  moreover have "Column_of ?h' (StructExpr ty v) = Some (c\<lparr>Table := []\<rparr>)"
  proof (rule Column_of_pointer [where a = a and t = t and x = x and y = y])
    show "y < length (objects ?h' a)"
      using assms(7) by simp
  next
    show "snd (objects ?h' a ! y) = Concrete (ColumnValue (c\<lparr>Table := []\<rparr>))"
      using assms(7) by simp
  next
    show "Type_FieldByName (Value_Type v) ''Column'' = Some [x, y]"
      by (rule assms(4))
  next
    show "x < length v"
      by (rule assms(5))
  next
    show "snd (v ! x) = EmbeddedPointer t (Some a)"
      by (rule assms(6))
  qed
  ultimately show ?thesis
    using assms(3) by simp
qed

theorem modifyExprs_mutates_shared_predicate_witness:
  "\<exists>h'. modifyExprs 2 10 example_heap = Returns h'
     \<and> arrays h' 11 = [Scoped_expr (Some 0) 1]
     \<and> Column_of example_heap (Scoped_expr (Some 0) 1) =
         Some \<lparr>Table = ''t'', Name = ''col1'', Alias = [], Raw = False\<rparr>
     \<and> Column_of h' (Scoped_expr (Some 0) 1) =
         Some \<lparr>Table = [], Name = ''col1'', Alias = [], Raw = False\<rparr>"
proof -
  let ?v = "[(''Meta'', EmbeddedPointer Meta_layout (Some 0)),
             (''Value'', Interface (Some (IntValue 1)))]"
  let ?c = "\<lparr>Table = ''t'', Name = ''col1'', Alias = [], Raw = False\<rparr>"
  have "\<exists>h'. modifyExprs (Suc (Suc 0)) 10 example_heap = Returns h'
          \<and> arrays h' = arrays example_heap
          \<and> arrays h' 11 ! 0 = StructExpr ''Scoped'' ?v
          \<and> Column_of example_heap (arrays example_heap 11 ! 0) = Some ?c
          \<and> Column_of h' (arrays h' 11 ! 0) = Some (?c\<lparr>Table := []\<rparr>)"
    by (rule modifyExprs_mutates_shared_predicate
          [where v = "?v" and x = 0 and y = 0 and t = Meta_layout and a = 0])
       (simp_all add: example_heap_def Scoped_expr_def Scoped_Column_index)
  then show ?thesis
    by (auto simp: example_heap_def Scoped_expr_def numeral_2_eq_2)
qed

text \<open>
  C3: where the code departs from the claim. For a statement whose WHERE list holds, in
  its first slot, a struct whose \<open>Column\<close> field is promoted from an embedded pointer that
  is \<open>nil\<close>, the DELETE builder does not return: it panics in
  \<open>modifyStatementWhereConds\<close>. The text it has written then is \<open>ALTER TABLE \<close> and, when
  the statement has a FROM clause, the rendered FROM clause; neither the current table
  nor \<open> DELETE\<close> is written.
\<close>

theorem DELETE_builder_panics:
  assumes "Clauses stmt ''WHERE'' = Some w" and "Clause_Expression w = Where exprs"
    and "arrays h exprs = StructExpr ty v # rest"
    and "Type_FieldByName (Value_Type v) ''Column'' = Some (x # y # index)"
    and "x < length v" and "snd (v ! x) = EmbeddedPointer t None"
  shows "\<exists>builder'.
           DELETE_builder env (Suc fuel) c (StatementBuilder stmt) h =
             Panics NilEmbeddedPointer (builder', h)
           \<and> written builder' =
               SQL stmt @ ''ALTER TABLE '' @
                 (case Clauses stmt ''FROM'' of
                    None \<Rightarrow> []
                  | Some f \<Rightarrow>
                      Clause_Build env (f\<lparr>Clause_Name := []\<rparr>)
                        (StatementBuilder (stmt\<lparr>SQL := SQL stmt @ ''ALTER TABLE ''\<rparr>)) h)"
proof -
  have "modifyStatementWhereConds (Suc fuel) stmt h = Panics NilEmbeddedPointer h"
    using assms(1,2) modifyExprs_nil_pointer [OF assms(3-6)]
    by (simp add: modifyStatementWhereConds_def)
  then have "modifyStatementWhereConds (Suc fuel) (stmt\<lparr>SQL := SQL stmt @ ''ALTER TABLE ''\<rparr>) h =
               Panics NilEmbeddedPointer h"
    by (simp add: modifyStatementWhereConds_def)
  then show ?thesis
    by (simp add: DELETE_builder_def Builder_WriteString_def WriteString_def written_def
        split: option.splits)
qed

theorem DELETE_builder_panics_witness:
  "\<exists>builder'.
     DELETE_builder plain_host 1
       \<lparr>Clause_Name = ''DELETE'', Clause_Expression = OtherClause ''clause.Delete''\<rparr>
       (StatementBuilder (where_statement 9)) example_heap =
       Panics NilEmbeddedPointer (builder', example_heap)
     \<and> written builder' = ''ALTER TABLE ''"
  using DELETE_builder_panics [of "where_statement 9"
      "\<lparr>Clause_Name = ''WHERE'', Clause_Expression = Where 9\<rparr>" 9 example_heap "''Scoped''"
      "[(''Meta'', EmbeddedPointer Meta_layout None), (''Value'', Interface (Some (IntValue 4)))]"
      "[]" 0 0 "[]" Meta_layout plain_host 0
      "\<lparr>Clause_Name = ''DELETE'', Clause_Expression = OtherClause ''clause.Delete''\<rparr>"]
  by (simp add: where_statement_def example_heap_def Scoped_expr_def Scoped_Column_index)

text \<open>
  C4, as the code has it. After \<open>Initialize\<close> with version detection enabled, a
  connection pool and a version query that succeeded, and a version string that
  \<open>go-version\<close> parses: when the version satisfies the constraint \<open>< 20.4\<close>, the flag
  \<open>DontSupportRenameColumn\<close> is true; otherwise the flag is what the configuration held
  before (false unless the configuration had set it).
\<close>

theorem Initialize_rename_flag:
  assumes "\<not> SkipInitializeWithVersion d"
    and "open_pool ext (default_settings d) = Inr pool"
    and "version_query ext pool = Inr vs"
    and "NewVersion ext vs = Some v"
  shows "\<exists>d' db'. Initialize ext d db = Inr (None, d', db')
           \<and> DontSupportRenameColumn d' =
               (if Check_lt_20_4 ext v then True else DontSupportRenameColumn d)"
  using assms by (simp add: Initialize_def Let_def)

theorem Initialize_rename_flag_witness:
  "(\<exists>d' db'. Initialize (server ''20.3.1'') ((Open_config ''dsn'')\<lparr>Conn := Some 0\<rparr>) new_DB =
        Inr (None, d', db') \<and> DontSupportRenameColumn d')
   \<and> (\<exists>d' db'. Initialize (server ''20.5.0'') ((Open_config ''dsn'')\<lparr>Conn := Some 0\<rparr>) new_DB =
        Inr (None, d', db') \<and> \<not> DontSupportRenameColumn d')"
proof
  show "\<exists>d' db'. Initialize (server ''20.3.1'') ((Open_config ''dsn'')\<lparr>Conn := Some 0\<rparr>) new_DB =
        Inr (None, d', db') \<and> DontSupportRenameColumn d'"
    using Initialize_rename_flag [of "(Open_config ''dsn'')\<lparr>Conn := Some 0\<rparr>" "server ''20.3.1''"
        "GivenConn 0" "''20.3.1''" "[20, 3, 1]" new_DB]
    by (simp add: server_def open_pool_def default_settings_def Open_config_def plain_20_3_1)
next
  show "\<exists>d' db'. Initialize (server ''20.5.0'') ((Open_config ''dsn'')\<lparr>Conn := Some 0\<rparr>) new_DB =
        Inr (None, d', db') \<and> \<not> DontSupportRenameColumn d'"
    using Initialize_rename_flag [of "(Open_config ''dsn'')\<lparr>Conn := Some 0\<rparr>" "server ''20.5.0''"
        "GivenConn 0" "''20.5.0''" "[20, 5, 0]" new_DB]
    by (simp add: server_def open_pool_def default_settings_def Open_config_def plain_20_5_0)
qed

text \<open>
  The claim as stated (for a version of 20.4 or greater the flag is false) fails for a
  configuration that sets \<open>DontSupportRenameColumn\<close> itself: \<open>Initialize\<close> only ever sets
  the flag, and the version 20.5.0 leaves it set.
\<close>

theorem Initialize_keeps_configured_flag:
  "plain_NewVersion ''20.5.0'' = Some [20, 5, 0] \<and> \<not> segments_less [20, 5, 0] [20, 4, 0]
   \<and> (\<exists>d' db'. Initialize (server ''20.5.0'')
          ((Open_config ''dsn'')\<lparr>Conn := Some 0, DontSupportRenameColumn := True\<rparr>) new_DB =
        Inr (None, d', db') \<and> DontSupportRenameColumn d')"
  by (simp add: Initialize_def Let_def server_def open_pool_def default_settings_def
      Open_config_def plain_20_5_0)

text \<open>
  C5: where the code departs from the claim. When the version query succeeds and
  \<open>go-version\<close> cannot parse the string it returned, \<open>Initialize\<close> drops the parse error
  and hands the \<open>nil\<close> version to \<open>Check\<close>: it panics instead of returning.
\<close>

theorem Initialize_panics_on_unparsed_version:
  assumes "\<not> SkipInitializeWithVersion d"
    and "open_pool ext (default_settings d) = Inr pool"
    and "version_query ext pool = Inr vs"
    and "NewVersion ext vs = None"
  shows "Initialize ext d db = Inl NilPointerDereference"
  using assms by (simp add: Initialize_def Let_def)

theorem Initialize_panics_on_unparsed_version_witness:
  "plain_NewVersion [] = None
   \<and> Initialize (server []) ((Open_config ''dsn'')\<lparr>Conn := Some 0\<rparr>) new_DB =
       Inl NilPointerDereference"
  using Initialize_panics_on_unparsed_version [of "(Open_config ''dsn'')\<lparr>Conn := Some 0\<rparr>"
      "server []" "GivenConn 0" "[]" new_DB]
  by (simp add: server_def open_pool_def default_settings_def Open_config_def plain_empty)

text \<open>
  C6, as the code has it. \<open>DataTypeOf\<close> leaves the kind, the size and the scale of the
  field descriptor as they were. It leaves the precision as it was too, except in one
  case: for a timestamp field of precision 0, when datetime precision is not disabled, it
  sets the descriptor's precision to 3.
\<close>

theorem DataTypeOf_field_effect:
  "snd (DataTypeOf d field) =
     (if DataType field = schema_Time \<and> \<not> DisableDatetimePrecision d \<and> Precision field = 0
      then field\<lparr>Precision := 3\<rparr> else field)
   \<and> DataType (snd (DataTypeOf d field)) = DataType field
   \<and> Size (snd (DataTypeOf d field)) = Size field
   \<and> Scale (snd (DataTypeOf d field)) = Scale field"
  by (simp add: DataTypeOf_def Let_def schema_Bool_def schema_Int_def schema_Uint_def
      schema_Float_def schema_String_def schema_Time_def schema_Bytes_def)

text \<open>
  The claim as stated (the descriptor is unchanged for every kind, timestamp with
  precision 0 included) fails for a timestamp field of precision 0.
\<close>

theorem DataTypeOf_changes_precision:
  "DataTypeOf (Open_config ''tcp://localhost:9000'')
      \<lparr>DataType = ''time'', Size = 0, Precision = 0, Scale = 0\<rparr> =
     (''DateTime64(3)'', \<lparr>DataType = ''time'', Size = 0, Precision = 3, Scale = 0\<rparr>)
   \<and> snd (DataTypeOf (Open_config ''tcp://localhost:9000'')
      \<lparr>DataType = ''time'', Size = 0, Precision = 0, Scale = 0\<rparr>) \<noteq>
     \<lparr>DataType = ''time'', Size = 0, Precision = 0, Scale = 0\<rparr>"
  by (simp add: DataTypeOf_def Let_def Open_config_def schema_Bool_def schema_Int_def
      schema_Uint_def schema_Float_def schema_String_def schema_Time_def schema_Bytes_def
      Sprintf_d_def)

text \<open>
  C7: where the code departs from the claim. \<open>modifyExprs\<close> has a failing path. An
  expression that is none of the three condition types and carries no column, because it
  is a struct whose \<open>Column\<close> field would be promoted from an embedded pointer that is
  \<open>nil\<close>, is not passed over: \<open>FieldByName\<close> finds the field in the type, behind the
  pointer, and panics when it goes through the pointer in the value. \<open>modifyExprs\<close>
  panics there and does not return.
\<close>

theorem modifyExprs_panics_on_nil_embedded_pointer:
  assumes "arrays h exprs = StructExpr ty v # rest"
    and "Type_FieldByName (Value_Type v) ''Column'' = Some (x # y # index)"
    and "x < length v" and "snd (v ! x) = EmbeddedPointer t None"
  shows "Column_of h (StructExpr ty v) = None
         \<and> modifyExprs (Suc fuel) exprs h = Panics NilEmbeddedPointer h"
proof
  show "Column_of h (StructExpr ty v) = None"
    using assms(2-4) by (simp add: Column_of_def FieldByName_def Field_nth)
  show "modifyExprs (Suc fuel) exprs h = Panics NilEmbeddedPointer h"
    using assms by (rule modifyExprs_nil_pointer)
qed

theorem modifyExprs_panics_on_nil_embedded_pointer_witness:
  "Column_of example_heap (Scoped_expr None 4) = None
   \<and> modifyExprs 1 9 example_heap = Panics NilEmbeddedPointer example_heap"
  using modifyExprs_panics_on_nil_embedded_pointer [of example_heap 9 "''Scoped''"
      "[(''Meta'', EmbeddedPointer Meta_layout None), (''Value'', Interface (Some (IntValue 4)))]"
      "[]" 0 0 "[]" Meta_layout 0]
  by (simp add: example_heap_def Scoped_expr_def Scoped_Column_index)

text \<open>
  C8. For an identifier without a dot, \<open>QuoteTo\<close> writes exactly the identifier wrapped
  in one pair of backticks. For a dotted identifier, the dot-delimited segments (at least
  two, none holding a dot, and joined by dots they give the identifier back) are each
  wrapped in their own pair of backticks, and the wrapped segments are joined by
  unquoted dots.
\<close>

theorem QuoteTo_backticks:
  "(CHR ''.'' \<notin> set str \<longrightarrow> QuoteTo w str = w @ backticked str)
   \<and> (CHR ''.'' \<in> set str \<longrightarrow>
        2 \<le> length (Split str (CHR ''.''))
        \<and> join_dots (Split str (CHR ''.'')) = str
        \<and> (\<forall>seg \<in> set (Split str (CHR ''.'')). CHR ''.'' \<notin> set seg)
        \<and> QuoteTo w str = w @ join_dots (map backticked (Split str (CHR ''.''))))"
proof (intro conjI impI)
  assume "CHR ''.'' \<notin> set str"
  then show "QuoteTo w str = w @ backticked str"
    by (simp add: QuoteTo_join Split_no_sep)
next
  assume "CHR ''.'' \<in> set str"
  then have "count_list str (CHR ''.'') \<noteq> 0"
    by (simp add: count_list_0_iff)
  then show "2 \<le> length (Split str (CHR ''.''))"
    by (simp add: length_Split)
next
  show "join_dots (Split str (CHR ''.'')) = str"
    by (rule join_dots_Split)
next
  show "\<forall>seg \<in> set (Split str (CHR ''.'')). CHR ''.'' \<notin> set seg"
    using Split_segments_free by blast
next
  show "QuoteTo w str = w @ join_dots (map backticked (Split str (CHR ''.'')))"
    by (rule QuoteTo_join)
qed

theorem QuoteTo_backticks_witness:
  "QuoteTo [] ''a'' = ''`a`'' \<and> QuoteTo [] ''a.b.c'' = ''`a`.`b`.`c`''
   \<and> Split ''a.b.c'' (CHR ''.'') = [''a'', ''b'', ''c'']"
  using QuoteTo_backticks [of "''a''" "[]"] QuoteTo_backticks [of "''a.b.c''" "[]"]
  by (simp add: backticked_def)

text \<open>
  C9. For every configuration, transaction handle and savepoint name, \<open>SavePoint\<close> and
  \<open>RollbackTo\<close> return the same fixed error, \<open>ErrUnsupportedDriver\<close>; neither returns
  \<open>nil\<close>.
\<close>

theorem savepoints_unsupported:
  "SavePoint d tx name = Some ErrUnsupportedDriver
   \<and> RollbackTo d' tx' name' = Some ErrUnsupportedDriver
   \<and> SavePoint d tx name \<noteq> None \<and> RollbackTo d' tx' name' \<noteq> None"
  by (simp add: SavePoint_def RollbackTo_def)



end
